theory Spec2Isabelle
  imports Complex_Main "HOL-Library.AList"
begin

section \<open>Python values used by \<open>app.py\<close>\<close>

text \<open>
  The exceptions that the modelled code can meet. \<open>OSError\<close> stands for the failures of
  \<open>os.makedirs\<close>, \<open>open\<close> and a write (\<open>PermissionError\<close> and the other subclasses
  included), \<open>ImportError\<close> for itself and its subclass \<open>ModuleNotFoundError\<close>, and
  \<open>OtherException\<close> for any other exception class.
\<close>

datatype py_exception =
  UnpicklingError | EOFError | OSError | ImportError | KeyError | ValueError
  | ZeroDivisionError | OtherException

section \<open>Data model\<close>

text \<open>
  A value of \<open>self.students\<close>: the dict literal built in \<open>register_student\<close>. The type
  \<open>'e\<close> is the face encoding (a numpy vector in the source); the model never looks inside
  it, it only hands it to the distance function of the face recognition library.
\<close>

record 'e student =
  name :: string
  class_name :: string
  email :: string
  image_path :: string
  face_encoding :: 'e
  registration_date :: string

text \<open>An element of \<open>self.attendance_records\<close>: the dict literal appended in \<open>mark_attendance\<close>.\<close>

record attendance =
  student_id :: string
  student_name :: string
  student_class :: string
  date :: string
  time :: string
  status :: string

text \<open>
  \<open>self.students\<close> is a Python dict, which keeps its keys in insertion order and holds a key
  at most once. It is an association list here, because \<open>mark_attendance\<close> indexes
  \<open>list(self.students.keys())\<close>; an assignment \<open>d[k] = v\<close> is \<open>AList.update k v d\<close>, which
  replaces the value in place when the key is there and appends the pair otherwise.
  A list that stands for a dict has distinct keys.
\<close>

type_synonym 'e students_dict = "(string \<times> 'e student) list"

text \<open>
  What a pickle file on disk is to the loader: it does not exist; it exists and \<open>open\<close>
  raises; it exists and \<open>pickle.load\<close> raises the given exception; or \<open>pickle.load\<close>
  returns the given object.
\<close>

datatype 'a pickle_file = Missing | Unreadable | Corrupt py_exception | Pickled 'a

text \<open>
  What the environment does with one \<open>open(..., 'wb')\<close> and \<open>pickle.dump\<close>: the write goes
  through, or it raises and leaves the given file behind (the old file when \<open>open\<close> failed,
  a truncated one when \<open>pickle.dump\<close> failed).
\<close>

datatype 'a write_outcome = Written | WriteRaises "'a pickle_file"

text \<open>
  The object \<open>AttendanceData\<close>: its two in-memory collections, and the two files
  \<open>students.pkl\<close> and \<open>attendance.pkl\<close> that back them.
\<close>

record 'e data_manager =
  students :: "'e students_dict"
  attendance_records :: "attendance list"
  students_file :: "'e students_dict pickle_file"
  attendance_file :: "attendance list pickle_file"

section \<open>Loading and saving\<close>

text \<open>
  \<open>load_students\<close>: a missing file gives \<open>{}\<close>; the only handler is
  \<open>except (pickle.UnpicklingError, EOFError)\<close>, which gives \<open>{}\<close>; the \<open>OSError\<close> of a
  failed \<open>open\<close> and any other exception of \<open>pickle.load\<close> propagate.
  \<open>load_attendance\<close> is the same with \<open>[]\<close>.
\<close>

definition load_students :: "'e students_dict pickle_file \<Rightarrow> py_exception + 'e students_dict" where
  "load_students f =
     (case f of
        Missing \<Rightarrow> Inr []
      | Unreadable \<Rightarrow> Inl OSError
      | Corrupt e \<Rightarrow> (if e = UnpicklingError \<or> e = EOFError then Inr [] else Inl e)
      | Pickled d \<Rightarrow> Inr d)"

definition load_attendance :: "attendance list pickle_file \<Rightarrow> py_exception + attendance list" where
  "load_attendance f =
     (case f of
        Missing \<Rightarrow> Inr []
      | Unreadable \<Rightarrow> Inl OSError
      | Corrupt e \<Rightarrow> (if e = UnpicklingError \<or> e = EOFError then Inr [] else Inl e)
      | Pickled d \<Rightarrow> Inr d)"

text \<open>
  \<open>AttendanceData.__init__\<close>: the two calls of \<open>os.makedirs(..., exist_ok=True)\<close>, for the
  data directory and for the images directory, then both loads, in the source's order;
  the first exception wins. \<open>data_dir_made\<close> and \<open>images_dir_made\<close> tell whether the
  respective \<open>os.makedirs\<close> returns; when it does not, it raises an \<open>OSError\<close>.
\<close>

definition init ::
  "bool \<Rightarrow> bool \<Rightarrow> 'e students_dict pickle_file \<Rightarrow> attendance list pickle_file
     \<Rightarrow> py_exception + 'e data_manager" where
  "init data_dir_made images_dir_made sf af =
     (if \<not> data_dir_made then Inl OSError
      else if \<not> images_dir_made then Inl OSError
      else
        (case load_students sf of
           Inl e \<Rightarrow> Inl e
         | Inr s \<Rightarrow>
             (case load_attendance af of
                Inl e \<Rightarrow> Inl e
              | Inr a \<Rightarrow>
                  Inr \<lparr>students = s, attendance_records = a,
                       students_file = sf, attendance_file = af\<rparr>)))"

text \<open>
  \<open>save_students\<close> and \<open>save_attendance\<close> have no \<open>try\<close>: a failed write raises to the
  caller. The result pairs what the call returns or raises with the object afterwards.
\<close>

definition save_students ::
  "'e data_manager \<Rightarrow> 'e students_dict write_outcome \<Rightarrow> (py_exception + unit) \<times> 'e data_manager" where
  "save_students dm w =
     (case w of
        Written \<Rightarrow> (Inr (), dm\<lparr>students_file := Pickled (students dm)\<rparr>)
      | WriteRaises f \<Rightarrow> (Inl OSError, dm\<lparr>students_file := f\<rparr>))"

definition save_attendance ::
  "'e data_manager \<Rightarrow> attendance list write_outcome \<Rightarrow> (py_exception + unit) \<times> 'e data_manager" where
  "save_attendance dm w =
     (case w of
        Written \<Rightarrow> (Inr (), dm\<lparr>attendance_file := Pickled (attendance_records dm)\<rparr>)
      | WriteRaises f \<Rightarrow> (Inl OSError, dm\<lparr>attendance_file := f\<rparr>))"

section \<open>Enrollment\<close>

text \<open>
  \<open>os.path.join\<close> of two components, as \<open>posixpath\<close> has it: a second component that
  starts with the separator replaces the first; otherwise the two are joined by one
  separator, which is not added when the first component is empty or ends with it.
\<close>

definition path_join :: "string \<Rightarrow> string \<Rightarrow> string" where
  "path_join a b =
     (if (case b of [] \<Rightarrow> False | c # cs \<Rightarrow> c = CHR ''/'') then b
      else if a = [] \<or> last a = CHR ''/'' then a @ b
      else a @ ''/'' @ b)"

text \<open>\<open>self.data_dir\<close> and \<open>self.images_dir\<close> of \<open>__init__\<close>.\<close>

definition data_dir :: string where
  "data_dir = ''attendance_data''"

definition images_dir :: string where
  "images_dir = path_join data_dir ''student_images''"

text \<open>
  \<open>register_student\<close>. The image is seen through what the source does with it:
  \<open>enc\<close> is the result of \<open>generate_face_encoding\<close> (\<open>None\<close> when the library finds no face
  or raises, which that function catches), \<open>save_raises\<close> is the exception that
  \<open>image.save\<close> raises (\<open>None\<close> when it succeeds), \<open>now\<close> is the formatted
  \<open>datetime.now()\<close>, and \<open>w\<close> is the outcome of the write in \<open>save_students\<close>. The
  conversion of the image to RGB and to an array is taken to succeed. There is no test of
  \<open>student_id in self.students\<close> in this function: the assignment
  \<open>self.students[student_id] = ...\<close> replaces the record of a key that is there.
\<close>

definition register_student ::
  "'e data_manager \<Rightarrow> string \<Rightarrow> string \<Rightarrow> string \<Rightarrow> string \<Rightarrow> 'e option
     \<Rightarrow> py_exception option \<Rightarrow> string
     \<Rightarrow> 'e students_dict write_outcome \<Rightarrow> (py_exception + bool) \<times> 'e data_manager" where
  "register_student dm sid nm cls mail enc save_raises now w =
     (let path = path_join images_dir (sid @ ''.jpg'') in
      case enc of
        None \<Rightarrow> (Inr False, dm)
      | Some fe \<Rightarrow>
          (case save_raises of
             Some e \<Rightarrow> (Inl e, dm)
           | None \<Rightarrow>
               let dm' = dm\<lparr>students :=
                     AList.update sid
                       \<lparr>name = nm, class_name = cls, email = mail, image_path = path,
                        face_encoding = fe, registration_date = now\<rparr>
                       (students dm)\<rparr>
               in (case save_students dm' w of
                     (Inl e, dm'') \<Rightarrow> (Inl e, dm'')
                   | (Inr u, dm'') \<Rightarrow> (Inr True, dm''))))"

text \<open>
  \<open>str.strip()\<close> removes leading and trailing whitespace. A \<open>char\<close> is read as the code
  point of its number, so a \<open>string\<close> is a Python string over U+0000 to U+00FF. The
  whitespace of Python in that range: tab, line feed, vertical tab, form feed, carriage
  return, the four separators U+001C to U+001F, the space, the next line U+0085 and the
  no-break space U+00A0.
\<close>

definition is_space :: "char \<Rightarrow> bool" where
  "is_space c =
     (c \<in> set [CHR 0x09, CHR 0x0A, CHR 0x0B, CHR 0x0C, CHR 0x0D,
                CHR 0x1C, CHR 0x1D, CHR 0x1E, CHR 0x1F, CHR 0x20, CHR 0x85, CHR 0xA0])"

definition strip :: "string \<Rightarrow> string" where
  "strip s = rev (dropWhile is_space (rev (dropWhile is_space s)))"

text \<open>
  The photo of the registration form, seen through what the handler does with it:
  whether \<open>Image.open\<close> succeeds, what \<open>generate_face_encoding\<close> returns for it, and
  the exception that \<open>image.save\<close> raises, if any.
\<close>

record 'e photo =
  opens :: bool
  encoding :: "'e option"
  save_error :: "py_exception option"

text \<open>The messages of the \<open>if submitted:\<close> block of \<open>student_registration_page\<close>.\<close>

datatype registration_message =
  FillRequiredFields | StudentIdExists | ProvidePhoto
  | RegisteredSuccessfully | NoFaceDetected | RegistrationFailed

text \<open>
  The \<open>if submitted:\<close> block of \<open>student_registration_page\<close>. The membership test reads the
  text field as typed; \<open>register_student\<close> receives the stripped \<open>student_id\<close>, \<open>name\<close> and
  \<open>email\<close>. Whatever \<open>Image.open\<close> or \<open>register_student\<close> raise is caught by
  \<open>except Exception\<close>.
\<close>

definition student_registration_submit ::
  "'e data_manager \<Rightarrow> string \<Rightarrow> string \<Rightarrow> string \<Rightarrow> string \<Rightarrow> 'e photo option \<Rightarrow> string
     \<Rightarrow> 'e students_dict write_outcome \<Rightarrow> registration_message \<times> 'e data_manager" where
  "student_registration_submit dm sid nm cls mail image_buffer now w =
     (if sid = [] \<or> nm = [] \<or> cls = ''Select Class'' then (FillRequiredFields, dm)
      else if sid \<in> set (map fst (students dm)) then (StudentIdExists, dm)
      else
        (case image_buffer of
           None \<Rightarrow> (ProvidePhoto, dm)
         | Some img \<Rightarrow>
             if \<not> opens img then (RegistrationFailed, dm)
             else
               (case register_student dm (strip sid) (strip nm) cls (strip mail)
                       (encoding img) (save_error img) now w of
                  (Inl e, dm') \<Rightarrow> (RegistrationFailed, dm')
                | (Inr success, dm') \<Rightarrow>
                    if success then (RegisteredSuccessfully, dm') else (NoFaceDetected, dm'))))"

section \<open>Matching a captured face\<close>

text \<open>
  The two functions of the \<open>face_recognition\<close> library that \<open>mark_attendance\<close> calls, and
  numpy's \<open>argmin\<close>. The metric \<open>metric\<close> (the library takes the Euclidean norm of the
  difference of two encodings) is a parameter; its values are the real numbers that the
  computed floats denote. The library defines \<open>compare_faces\<close> as
  \<open>list(face_distance(known_face_encodings, face_encoding_to_check) <= tolerance)\<close>.
\<close>

definition face_distance :: "('e \<Rightarrow> 'e \<Rightarrow> real) \<Rightarrow> 'e list \<Rightarrow> 'e \<Rightarrow> real list" where
  "face_distance metric face_encodings face_to_compare =
     map (\<lambda>k. metric k face_to_compare) face_encodings"

definition compare_faces :: "('e \<Rightarrow> 'e \<Rightarrow> real) \<Rightarrow> 'e list \<Rightarrow> 'e \<Rightarrow> real \<Rightarrow> bool list" where
  "compare_faces metric known_face_encodings face_encoding_to_check tolerance =
     map (\<lambda>d. d \<le> tolerance) (face_distance metric known_face_encodings face_encoding_to_check)"

text \<open>
  \<open>np.argmin\<close>: the index of the first occurrence of the minimum; \<open>ValueError\<close> on an
  empty array. \<open>argmin_from best bi i xs\<close> scans \<open>xs\<close>, whose first element has index
  \<open>i\<close>, with the least value so far \<open>best\<close> found at index \<open>bi\<close>.
\<close>

fun argmin_from :: "real \<Rightarrow> nat \<Rightarrow> nat \<Rightarrow> real list \<Rightarrow> nat" where
  "argmin_from best bi i [] = bi"
| "argmin_from best bi i (x # xs) =
     (if x < best then argmin_from x i (Suc i) xs else argmin_from best bi (Suc i) xs)"

definition argmin :: "real list \<Rightarrow> py_exception + nat" where
  "argmin xs = (case xs of [] \<Rightarrow> Inl ValueError | x # rest \<Rightarrow> Inr (argmin_from x 0 1 rest))"

text \<open>
  Lines 215 to 226 of \<open>mark_attendance\<close>, for one captured encoding and a non-empty
  \<open>known_encodings\<close>: the key at \<open>best_match_index\<close> when \<open>matches[best_match_index]\<close>,
  and no key otherwise. The source passes \<open>tolerance=0.6\<close>.
\<close>

definition match_face ::
  "('e \<Rightarrow> 'e \<Rightarrow> real) \<Rightarrow> 'e students_dict \<Rightarrow> 'e \<Rightarrow> real \<Rightarrow> py_exception + string option" where
  "match_face metric studs enc tolerance =
     (let known_encodings = map (\<lambda>(k, data). face_encoding data) studs;
          matches = compare_faces metric known_encodings enc tolerance;
          face_distances = face_distance metric known_encodings enc
      in case argmin face_distances of
           Inl e \<Rightarrow> Inl e
         | Inr best_match_index \<Rightarrow>
             if matches ! best_match_index
             then Inr (Some (map fst studs ! best_match_index))
             else Inr None)"

section \<open>The attendance ledger\<close>

datatype record_outcome = Recorded | AlreadyPresentToday

text \<open>
  Lines 227 to 237 of \<open>mark_attendance\<close> (the spec's \<open>record_if_new\<close>): the scan of
  \<open>self.attendance_records\<close> for the student and the date, and the append when the scan
  finds nothing.
\<close>

definition record_if_new ::
  "attendance list \<Rightarrow> string \<Rightarrow> 'e student \<Rightarrow> string \<Rightarrow> string \<Rightarrow> record_outcome \<times> attendance list" where
  "record_if_new recs sid student_data today now =
     (let already_marked = list_ex (\<lambda>r. student_id r = sid \<and> date r = today) recs
      in if \<not> already_marked
         then (Recorded,
               recs @ [\<lparr>student_id = sid, student_name = name student_data,
                        student_class = class_name student_data, date = today,
                        time = now, status = ''Present''\<rparr>])
         else (AlreadyPresentToday, recs))"

text \<open>
  How the \<open>for face_encoding in face_encodings\<close> loop ends: by the \<open>return []\<close> inside it,
  by an exception, or by running out of faces, each with the records as they are then
  (the loop appends to \<open>self.attendance_records\<close> in place).
\<close>

datatype loop_result =
  EarlyReturn "attendance list"
  | LoopRaised py_exception "attendance list"
  | Finished "attendance list" "string list"

text \<open>The records with which the loop ends.\<close>

fun loop_records :: "loop_result \<Rightarrow> attendance list" where
  "loop_records (EarlyReturn recs) = recs"
| "loop_records (LoopRaised e recs) = recs"
| "loop_records (Finished recs marked_students) = recs"

text \<open>
  The loop of \<open>mark_attendance\<close>. Each captured face comes with the two clock readings
  that its iteration makes: \<open>date.today()\<close> and \<open>datetime.now()\<close>, both formatted.
\<close>

fun mark_faces ::
  "('e \<Rightarrow> 'e \<Rightarrow> real) \<Rightarrow> 'e students_dict \<Rightarrow> ('e \<times> string \<times> string) list
     \<Rightarrow> attendance list \<Rightarrow> string list \<Rightarrow> loop_result" where
  "mark_faces metric studs [] recs marked_students = Finished recs marked_students"
| "mark_faces metric studs ((enc, today, now) # faces) recs marked_students =
     (if map (\<lambda>(k, data). face_encoding data) studs = [] then EarlyReturn recs
      else
        (case match_face metric studs enc (6 / 10) of
           Inl e \<Rightarrow> LoopRaised e recs
         | Inr None \<Rightarrow> mark_faces metric studs faces recs marked_students
         | Inr (Some sid) \<Rightarrow>
             (case map_of studs sid of
                None \<Rightarrow> LoopRaised KeyError recs
              | Some student_data \<Rightarrow>
                  (case record_if_new recs sid student_data today now of
                     (Recorded, recs') \<Rightarrow>
                       mark_faces metric studs faces recs' (marked_students @ [name student_data])
                   | (AlreadyPresentToday, recs') \<Rightarrow>
                       mark_faces metric studs faces recs' marked_students))))"

text \<open>
  \<open>mark_attendance\<close>. \<open>detected\<close> is what the conversion of the image and
  \<open>face_recognition.face_encodings\<close> give: the captured faces, or an exception.
  \<open>except Exception\<close> turns every exception, the one of \<open>save_attendance\<close> included, into
  the result \<open>[]\<close>. \<open>list(set(marked_students))\<close> keeps one copy of each name, in an order
  that Python does not fix; \<open>remdups\<close> picks one such order.
\<close>

definition mark_attendance ::
  "('e \<Rightarrow> 'e \<Rightarrow> real) \<Rightarrow> 'e data_manager \<Rightarrow> py_exception + ('e \<times> string \<times> string) list
     \<Rightarrow> attendance list write_outcome \<Rightarrow> string list \<times> 'e data_manager" where
  "mark_attendance metric dm detected w =
     (case detected of
        Inl e \<Rightarrow> ([], dm)
      | Inr face_encodings \<Rightarrow>
          (case mark_faces metric (students dm) face_encodings (attendance_records dm) [] of
             EarlyReturn recs \<Rightarrow> ([], dm\<lparr>attendance_records := recs\<rparr>)
           | LoopRaised e recs \<Rightarrow> ([], dm\<lparr>attendance_records := recs\<rparr>)
           | Finished recs marked_students \<Rightarrow>
               if marked_students \<noteq> [] then
                 (case save_attendance (dm\<lparr>attendance_records := recs\<rparr>) w of
                    (Inl e, dm') \<Rightarrow> ([], dm')
                  | (Inr u, dm') \<Rightarrow> (remdups marked_students, dm'))
               else ([], dm\<lparr>attendance_records := recs\<rparr>)))"

text \<open>A sequence of captures, each with its detected faces and the outcome of its write.\<close>

fun mark_attendance_seq ::
  "('e \<Rightarrow> 'e \<Rightarrow> real) \<Rightarrow> 'e data_manager
     \<Rightarrow> ((py_exception + ('e \<times> string \<times> string) list) \<times> attendance list write_outcome) list
     \<Rightarrow> 'e data_manager" where
  "mark_attendance_seq metric dm [] = dm"
| "mark_attendance_seq metric dm ((detected, w) # calls) =
     mark_attendance_seq metric (snd (mark_attendance metric dm detected w)) calls"

section \<open>Statistics and reports\<close>




record report_row =
  row_student_id :: string
  row_name :: string
  row_class :: string
  row_status :: string

text \<open>
  The loop of \<open>attendance_reports_page\<close> that builds \<open>report_data\<close>, for the chosen date
  and the chosen entry of the class filter.
\<close>

definition report_data :: "'e data_manager \<Rightarrow> string \<Rightarrow> string \<Rightarrow> report_row list" where
  "report_data dm date_str selected_class =
     (let present_students =
            set (map student_id (filter (\<lambda>r. date r = date_str) (attendance_records dm)))
      in map (\<lambda>(sid, student_data).
                \<lparr>row_student_id = sid, row_name = name student_data,
                 row_class = class_name student_data,
                 row_status = (if sid \<in> present_students then ''Present'' else ''Absent'')\<rparr>)
             (filter (\<lambda>(sid, student_data).
                        selected_class = ''All Classes'' \<or> class_name student_data = selected_class)
                     (students dm)))"

text \<open>The rows that the page shows for the chosen report type.\<close>

definition report_rows :: "'e data_manager \<Rightarrow> string \<Rightarrow> string \<Rightarrow> string \<Rightarrow> report_row list" where
  "report_rows dm date_str selected_class report_type =
     (if report_type = ''Absentees Only''
      then filter (\<lambda>r. row_status r = ''Absent'') (report_data dm date_str selected_class)
      else report_data dm date_str selected_class)"

section \<open>System settings\<close>

text \<open>
  The button "Clear All Attendance Records" of \<open>system_settings_page\<close>:
  \<open>data_manager.attendance_records = []\<close>, then \<open>data_manager.save_attendance()\<close>.
\<close>

definition clear_all_attendance ::
  "'e data_manager \<Rightarrow> attendance list write_outcome \<Rightarrow> (py_exception + unit) \<times> 'e data_manager" where
  "clear_all_attendance dm w = save_attendance (dm\<lparr>attendance_records := []\<rparr>) w"

section \<open>Example data\<close>

text \<open>
  Encodings of dimension one, where the Euclidean distance is the absolute difference,
  and enrolled students as \<open>register_student\<close> stores them.
\<close>

definition abs_metric :: "real \<Rightarrow> real \<Rightarrow> real" where
  "abs_metric a b = \<bar>a - b\<bar>"

definition enrolled :: "string \<Rightarrow> string \<Rightarrow> string \<Rightarrow> real \<Rightarrow> string \<times> real student" where
  "enrolled sid nm cls enc =
     (sid, \<lparr>name = nm, class_name = cls, email = [],
            image_path = path_join images_dir (sid @ ''.jpg''),
            face_encoding = enc, registration_date = ''2025-10-08 09:00:00''\<rparr>)"

text \<open>Two students at the distances 0.2 and 0.8 from the captured encoding 0.\<close>

definition two_students :: "real students_dict" where
  "two_students =
     [enrolled ''S1'' ''Alice'' ''Class 10A'' (2 / 10),
      enrolled ''S2'' ''Bob'' ''Class 10A'' (8 / 10)]"

text \<open>One student at the distance 0.6, the tolerance itself, from the captured encoding 0.\<close>

definition boundary_students :: "real students_dict" where
  "boundary_students = [enrolled ''S1'' ''Alice'' ''Class 10A'' (6 / 10)]"

text \<open>Three students, all at the distance 0.3 from the captured encoding 0.\<close>

definition tied_students :: "real students_dict" where
  "tied_students =
     [enrolled ''S1'' ''Alice'' ''Class 10A'' (3 / 10),
      enrolled ''S2'' ''Bob'' ''Class 10A'' (- 3 / 10),
      enrolled ''S3'' ''Carol'' ''Class 10B'' (3 / 10)]"

text \<open>
  Two students with the same display name: the first at the distance 0.1 from the
  encoding 0, the second at the distance 0.1 from the encoding 5.
\<close>

definition namesakes :: "real students_dict" where
  "namesakes =
     [enrolled ''S1'' ''Alex'' ''Class 9A'' (1 / 10),
      enrolled ''S2'' ''Alex'' ''Class 9B'' (51 / 10)]"

definition fresh_manager :: "real students_dict \<Rightarrow> real data_manager" where
  "fresh_manager studs =
     \<lparr>students = studs, attendance_records = [],
      students_file = Pickled studs, attendance_file = Missing\<rparr>"

text \<open>
  Captures: one face at the encoding 0, one face at the encoding 0.1 a few minutes later
  on the same day, and two faces in one image at the encodings 0 and 5.
\<close>

definition first_capture :: "py_exception + (real \<times> string \<times> string) list" where
  "first_capture = Inr [(0, ''2025-10-08'', ''09:00:00'')]"

definition second_capture :: "py_exception + (real \<times> string \<times> string) list" where
  "second_capture = Inr [(1 / 10, ''2025-10-08'', ''09:05:00'')]"

definition namesake_capture :: "py_exception + (real \<times> string \<times> string) list" where
  "namesake_capture = Inr [(0, ''2025-10-08'', ''09:00:00''), (5, ''2025-10-08'', ''09:00:01'')]"

text \<open>The object after Alice alone was marked present on 2025-10-08.\<close>

definition alice_present :: "real data_manager" where
  "alice_present =
     \<lparr>students = two_students,
      attendance_records =
        [\<lparr>student_id = ''S1'', student_name = ''Alice'', student_class = ''Class 10A'',
          date = ''2025-10-08'', time = ''09:00:00'', status = ''Present''\<rparr>],
      students_file = Pickled two_students,
      attendance_file =
        Pickled [\<lparr>student_id = ''S1'', student_name = ''Alice'', student_class = ''Class 10A'',
          date = ''2025-10-08'', time = ''09:00:00'', status = ''Present''\<rparr>]\<rparr>"

section \<open>The first minimum\<close>

text \<open>
  \<open>argmin_from\<close> either keeps the index it was given, when nothing later is smaller than
  \<open>best\<close>, or returns the position of an element that is smaller than \<open>best\<close>, smaller
  than everything before it and not larger than anything after it.
\<close>

lemma argmin_from_spec:
  "(argmin_from best bi i xs = bi \<and> (\<forall>j<length xs. best \<le> xs ! j))
   \<or> (\<exists>k<length xs. argmin_from best bi i xs = i + k \<and> xs ! k < best
        \<and> (\<forall>j<k. xs ! k < xs ! j) \<and> (\<forall>j<length xs. xs ! k \<le> xs ! j))"
proof (induction xs arbitrary: best bi i)
  case Nil
  then show ?case by simp
next
  case (Cons x xs)
  show ?case
  proof (cases "x < best")
    case True
    from Cons.IH [of x i "Suc i"] show ?thesis
    proof
      assume h: "argmin_from x i (Suc i) xs = i \<and> (\<forall>j<length xs. x \<le> xs ! j)"
      have "\<forall>j<length (x # xs). (x # xs) ! 0 \<le> (x # xs) ! j"
        using h by (simp add: nth_Cons split: nat.split)
      with h True have "0 < length (x # xs) \<and> argmin_from best bi i (x # xs) = i + 0 \<and> (x # xs) ! 0 < best
        \<and> (\<forall>j<0. (x # xs) ! 0 < (x # xs) ! j) \<and> (\<forall>j<length (x # xs). (x # xs) ! 0 \<le> (x # xs) ! j)"
        by simp
      then show ?thesis by blast
    next
      assume "\<exists>k<length xs. argmin_from x i (Suc i) xs = Suc i + k \<and> xs ! k < x
        \<and> (\<forall>j<k. xs ! k < xs ! j) \<and> (\<forall>j<length xs. xs ! k \<le> xs ! j)"
      then obtain k where k: "k < length xs" "argmin_from x i (Suc i) xs = Suc i + k" "xs ! k < x"
        "\<forall>j<k. xs ! k < xs ! j" "\<forall>j<length xs. xs ! k \<le> xs ! j" by blast
      have a: "\<forall>j<Suc k. (x # xs) ! Suc k < (x # xs) ! j"
        using k by (simp add: nth_Cons split: nat.split)
      have b: "\<forall>j<length (x # xs). (x # xs) ! Suc k \<le> (x # xs) ! j"
        using k by (simp add: nth_Cons less_eq_real_def split: nat.split)
      have "Suc k < length (x # xs) \<and> argmin_from best bi i (x # xs) = i + Suc k \<and> (x # xs) ! Suc k < best"
        using k True by simp
      with a b show ?thesis by blast
    qed
  next
    case False
    from Cons.IH [of best bi "Suc i"] show ?thesis
    proof
      assume h: "argmin_from best bi (Suc i) xs = bi \<and> (\<forall>j<length xs. best \<le> xs ! j)"
      have "\<forall>j<length (x # xs). best \<le> (x # xs) ! j"
        using h False by (simp add: nth_Cons split: nat.split)
      with h False show ?thesis by simp
    next
      assume "\<exists>k<length xs. argmin_from best bi (Suc i) xs = Suc i + k \<and> xs ! k < best
        \<and> (\<forall>j<k. xs ! k < xs ! j) \<and> (\<forall>j<length xs. xs ! k \<le> xs ! j)"
      then obtain k where k: "k < length xs" "argmin_from best bi (Suc i) xs = Suc i + k" "xs ! k < best"
        "\<forall>j<k. xs ! k < xs ! j" "\<forall>j<length xs. xs ! k \<le> xs ! j" by blast
      have a: "\<forall>j<Suc k. (x # xs) ! Suc k < (x # xs) ! j"
        using k False by (auto simp add: nth_Cons split: nat.split)
      have b: "\<forall>j<length (x # xs). (x # xs) ! Suc k \<le> (x # xs) ! j"
        using k False by (auto simp add: nth_Cons split: nat.split)
      have "Suc k < length (x # xs) \<and> argmin_from best bi i (x # xs) = i + Suc k \<and> (x # xs) ! Suc k < best"
        using k False by simp
      with a b show ?thesis by blast
    qed
  qed
qed

lemma argmin_first_minimum:
  assumes "xs \<noteq> []"
  shows "\<exists>i<length xs. argmin xs = Inr i \<and> (\<forall>j<length xs. xs ! i \<le> xs ! j) \<and> (\<forall>j<i. xs ! i < xs ! j)"
proof -
  from assms obtain x rest where xs: "xs = x # rest" by (cases xs) auto
  have am: "argmin xs = Inr (argmin_from x 0 1 rest)" by (simp add: xs argmin_def)
  from argmin_from_spec [of x 0 1 rest] show ?thesis
  proof
    assume h: "argmin_from x 0 1 rest = 0 \<and> (\<forall>j<length rest. x \<le> rest ! j)"
    have "\<forall>j<length xs. xs ! 0 \<le> xs ! j"
      using h by (simp add: xs nth_Cons split: nat.split)
    with h am xs show ?thesis by auto
  next
    assume "\<exists>k<length rest. argmin_from x 0 1 rest = 1 + k \<and> rest ! k < x
        \<and> (\<forall>j<k. rest ! k < rest ! j) \<and> (\<forall>j<length rest. rest ! k \<le> rest ! j)"
    then obtain k where k: "k < length rest" "argmin_from x 0 1 rest = 1 + k" "rest ! k < x"
        "\<forall>j<k. rest ! k < rest ! j" "\<forall>j<length rest. rest ! k \<le> rest ! j" by blast
    have a: "\<forall>j<Suc k. xs ! Suc k < xs ! j"
      using k by (simp add: xs nth_Cons split: nat.split)
    have b: "\<forall>j<length xs. xs ! Suc k \<le> xs ! j"
      using k by (simp add: xs nth_Cons less_eq_real_def split: nat.split)
    have "Suc k < length xs \<and> argmin xs = Inr (Suc k)"
      using k am by (simp add: xs)
    with a b show ?thesis by blast
  qed
qed

section \<open>The matcher\<close>

lemma face_distance_nth:
  "j < length studs \<Longrightarrow>
   face_distance metric (map (\<lambda>(k, data). face_encoding data) studs) e ! j
     = metric (face_encoding (snd (studs ! j))) e"
  by (simp add: face_distance_def case_prod_unfold)

lemma match_face_spec:
  assumes "studs \<noteq> []"
  shows "\<exists>i<length studs.
           (\<forall>j<length studs. metric (face_encoding (snd (studs ! i))) e
                                 \<le> metric (face_encoding (snd (studs ! j))) e)
         \<and> (\<forall>j<i. metric (face_encoding (snd (studs ! i))) e
                                 < metric (face_encoding (snd (studs ! j))) e)
         \<and> match_face metric studs e tol =
             Inr (if metric (face_encoding (snd (studs ! i))) e \<le> tol
                  then Some (fst (studs ! i)) else None)"
proof -
  let ?ds = "face_distance metric (map (\<lambda>(k, data). face_encoding data) studs) e"
  have len: "length ?ds = length studs" by (simp add: face_distance_def)
  then have "?ds \<noteq> []" using assms by auto
  from argmin_first_minimum [OF this] len obtain i where i: "i < length studs"
    "argmin ?ds = Inr i" "\<forall>j<length studs. ?ds ! i \<le> ?ds ! j" "\<forall>j<i. ?ds ! i < ?ds ! j"
    by auto
  have a: "\<forall>j<length studs. metric (face_encoding (snd (studs ! i))) e
                                 \<le> metric (face_encoding (snd (studs ! j))) e"
    using i(1,3) by (simp add: face_distance_nth)
  have b: "\<forall>j<i. metric (face_encoding (snd (studs ! i))) e
                                 < metric (face_encoding (snd (studs ! j))) e"
    using i(1,4) by (simp add: face_distance_nth)
  have m: "compare_faces metric (map (\<lambda>(k, data). face_encoding data) studs) e tol ! i
             = (metric (face_encoding (snd (studs ! i))) e \<le> tol)"
    using i(1) len by (simp add: compare_faces_def face_distance_nth)
  have c: "match_face metric studs e tol =
             Inr (if metric (face_encoding (snd (studs ! i))) e \<le> tol
                  then Some (fst (studs ! i)) else None)"
    using i(1,2) m by (simp add: match_face_def Let_def)
  from i(1) a b c show ?thesis by blast
qed

lemmas match_eval = match_face_def compare_faces_def face_distance_def argmin_def abs_metric_def enrolled_def Let_def

text \<open>
  Claim C2, as the code has it. For every captured encoding and every non-empty set of
  enrolled students, \<open>match_face\<close> finds an entry whose distance to the capture is least
  among all entries, and returns its key when that least distance is at most the
  tolerance, and no key otherwise. The comparison is \<open>\<le>\<close>, as in \<open>compare_faces\<close>.
\<close>

theorem match_face_nearest_within_tolerance:
  assumes "studs \<noteq> []"
  shows "\<exists>i<length studs.
           (\<forall>j<length studs. metric (face_encoding (snd (studs ! i))) e
                                 \<le> metric (face_encoding (snd (studs ! j))) e)
         \<and> match_face metric studs e tolerance =
             Inr (if metric (face_encoding (snd (studs ! i))) e \<le> tolerance
                  then Some (fst (studs ! i)) else None)"
  using match_face_spec [OF assms, of metric e tolerance] by blast

text \<open>
  The example of the spec: with two entries at the distances 0.2 and 0.8, the tolerance 0.6
  gives the key of the first and the tolerance 0.1 gives no key.
\<close>

theorem match_face_nearest_within_tolerance_witness:
  "two_students \<noteq> []
   \<and> (\<exists>i<length two_students.
        (\<forall>j<length two_students. abs_metric (face_encoding (snd (two_students ! i))) 0
                                 \<le> abs_metric (face_encoding (snd (two_students ! j))) 0)
        \<and> match_face abs_metric two_students 0 (6 / 10) =
             Inr (if abs_metric (face_encoding (snd (two_students ! i))) 0 \<le> 6 / 10
                  then Some (fst (two_students ! i)) else None))
   \<and> match_face abs_metric two_students 0 (6 / 10) = Inr (Some ''S1'')
   \<and> match_face abs_metric two_students 0 (1 / 10) = Inr None"
proof -
  have ne: "two_students \<noteq> []" by (simp add: two_students_def)
  have a: "match_face abs_metric two_students 0 (6 / 10) = Inr (Some ''S1'')"
    by (simp add: two_students_def match_eval)
  have b: "match_face abs_metric two_students 0 (1 / 10) = Inr None"
    by (simp add: two_students_def match_eval)
  from ne match_face_nearest_within_tolerance [OF ne, of abs_metric 0 "6 / 10"] a b
  show ?thesis by blast
qed

text \<open>
  Claim C2 as stated asks for a least distance strictly below the tolerance. An entry
  at the distance 0.6 from the capture is matched under the tolerance 0.6.
\<close>

theorem match_face_strict_counterexample:
  "\<not> (\<forall>(metric :: real \<Rightarrow> real \<Rightarrow> real) studs e tolerance. studs \<noteq> [] \<longrightarrow>
        (\<exists>i<length studs.
           (\<forall>j<length studs. metric (face_encoding (snd (studs ! i))) e
                                 \<le> metric (face_encoding (snd (studs ! j))) e)
         \<and> match_face metric studs e tolerance =
             Inr (if metric (face_encoding (snd (studs ! i))) e < tolerance
                  then Some (fst (studs ! i)) else None)))"
proof
  assume h: "\<forall>(metric :: real \<Rightarrow> real \<Rightarrow> real) studs e tolerance. studs \<noteq> [] \<longrightarrow>
        (\<exists>i<length studs.
           (\<forall>j<length studs. metric (face_encoding (snd (studs ! i))) e
                                 \<le> metric (face_encoding (snd (studs ! j))) e)
         \<and> match_face metric studs e tolerance =
             Inr (if metric (face_encoding (snd (studs ! i))) e < tolerance
                  then Some (fst (studs ! i)) else None))"
  have ne: "boundary_students \<noteq> []" by (simp add: boundary_students_def)
  from h ne obtain i where i: "i < length boundary_students"
    "match_face abs_metric boundary_students 0 (6 / 10) =
       Inr (if abs_metric (face_encoding (snd (boundary_students ! i))) 0 < 6 / 10
            then Some (fst (boundary_students ! i)) else None)"
    by blast
  from i(1) have i0: "i = 0" by (simp add: boundary_students_def)
  have d: "abs_metric (face_encoding (snd (boundary_students ! 0))) 0 = 6 / 10"
    by (simp add: boundary_students_def abs_metric_def enrolled_def)
  have m: "match_face abs_metric boundary_students 0 (6 / 10) = Inr (Some ''S1'')"
    by (simp add: boundary_students_def match_eval)
  from i(2) i0 d m show False by simp
qed

text \<open>
  Claim C8. The entry that \<open>match_face\<close> selects attains the least distance, and every
  entry before it in the order of the dict is strictly farther from the capture: of several
  entries at the least distance, the first is selected.
\<close>

theorem match_face_first_minimum:
  assumes "match_face metric studs e tolerance = Inr (Some k)"
  shows "\<exists>i<length studs. k = fst (studs ! i)
         \<and> (\<forall>j<length studs. metric (face_encoding (snd (studs ! i))) e
                                 \<le> metric (face_encoding (snd (studs ! j))) e)
         \<and> (\<forall>j<i. metric (face_encoding (snd (studs ! i))) e
                                 < metric (face_encoding (snd (studs ! j))) e)"
proof -
  have ne: "studs \<noteq> []"
    using assms by (auto simp: match_face_def argmin_def face_distance_def)
  from match_face_spec [OF ne, of metric e tolerance] assms show ?thesis
    by (auto split: if_splits)
qed

text \<open>Three entries at the same distance 0.3: the first one is selected.\<close>

theorem match_face_first_minimum_witness:
  "match_face abs_metric tied_students 0 (6 / 10) = Inr (Some ''S1'')
   \<and> abs_metric (face_encoding (snd (tied_students ! 0))) 0
       = abs_metric (face_encoding (snd (tied_students ! 1))) 0
   \<and> abs_metric (face_encoding (snd (tied_students ! 0))) 0
       = abs_metric (face_encoding (snd (tied_students ! 2))) 0
   \<and> (\<exists>i<length tied_students. ''S1'' = fst (tied_students ! i)
         \<and> (\<forall>j<length tied_students. abs_metric (face_encoding (snd (tied_students ! i))) 0
                                 \<le> abs_metric (face_encoding (snd (tied_students ! j))) 0)
         \<and> (\<forall>j<i. abs_metric (face_encoding (snd (tied_students ! i))) 0
                                 < abs_metric (face_encoding (snd (tied_students ! j))) 0))"
proof -
  have m: "match_face abs_metric tied_students 0 (6 / 10) = Inr (Some ''S1'')"
    by (simp add: tied_students_def match_eval)
  have t: "abs_metric (face_encoding (snd (tied_students ! 0))) 0
       = abs_metric (face_encoding (snd (tied_students ! 1))) 0"
     "abs_metric (face_encoding (snd (tied_students ! 0))) 0
       = abs_metric (face_encoding (snd (tied_students ! 2))) 0"
    by (simp_all add: tied_students_def abs_metric_def enrolled_def)
  from m t match_face_first_minimum [OF m] show ?thesis by blast
qed

section \<open>Loading\<close>

text \<open>
  Claim C7 at the inputs that break it. A students file whose unpickling raises
  \<open>UnpicklingError\<close> or \<open>EOFError\<close> loads as the empty dict, and so does a missing file:
  this is the path the handler provides. A students file whose unpickling raises an
  exception of another class (\<open>ModuleNotFoundError\<close>, an \<open>ImportError\<close>, for a damaged class
  reference) and a file that cannot be opened make \<open>load_students\<close> raise, and the
  constructor with it, where the claim has the store start empty. \<open>load_attendance\<close>
  does the same.
\<close>

theorem load_corrupt_file_raises:
  "load_students (Corrupt UnpicklingError :: real students_dict pickle_file) = Inr []
   \<and> load_students (Corrupt EOFError :: real students_dict pickle_file) = Inr []
   \<and> load_students (Missing :: real students_dict pickle_file) = Inr []
   \<and> load_students (Corrupt ImportError :: real students_dict pickle_file) = Inl ImportError
   \<and> load_students (Corrupt ValueError :: real students_dict pickle_file) = Inl ValueError
   \<and> load_students (Unreadable :: real students_dict pickle_file) = Inl OSError
   \<and> load_attendance (Corrupt UnpicklingError) = Inr []
   \<and> load_attendance (Corrupt ImportError) = Inl ImportError
   \<and> load_attendance Unreadable = Inl OSError
   \<and> init True True (Corrupt UnpicklingError :: real students_dict pickle_file) Missing
       = Inr \<lparr>students = [], attendance_records = [],
              students_file = Corrupt UnpicklingError, attendance_file = Missing\<rparr>
   \<and> init True True (Corrupt ImportError :: real students_dict pickle_file) Missing
       = Inl ImportError
   \<and> init True True (Unreadable :: real students_dict pickle_file) Missing = Inl OSError"
  by (simp add: load_students_def load_attendance_def init_def)

section \<open>Clearing the ledger\<close>

text \<open>
  Claim C10. Clearing all attendance records leaves the students and the students file as
  they were and empties the records; when the write goes through, the attendance file
  holds the empty list.
\<close>

theorem clear_all_attendance_frame:
  "students (snd (clear_all_attendance dm w)) = students dm
   \<and> students_file (snd (clear_all_attendance dm w)) = students_file dm
   \<and> attendance_records (snd (clear_all_attendance dm w)) = []
   \<and> (w = Written \<longrightarrow>
        fst (clear_all_attendance dm w) = Inr ()
        \<and> attendance_file (snd (clear_all_attendance dm w)) = Pickled [])"
  by (cases w) (simp_all add: clear_all_attendance_def save_attendance_def)

text \<open>
  With Alice marked present and the write going through: the students and their file are
  unchanged, the records and the attendance file are empty.
\<close>

theorem clear_all_attendance_frame_witness:
  "students (snd (clear_all_attendance alice_present Written)) = two_students
   \<and> students_file (snd (clear_all_attendance alice_present Written)) = Pickled two_students
   \<and> attendance_records alice_present \<noteq> []
   \<and> attendance_records (snd (clear_all_attendance alice_present Written)) = []
   \<and> fst (clear_all_attendance alice_present Written) = Inr ()
   \<and> attendance_file (snd (clear_all_attendance alice_present Written)) = Pickled []"
  using clear_all_attendance_frame [of alice_present Written]
  by (simp add: alice_present_def)

section \<open>One event per student and date\<close>

text \<open>
  A list holds at most one element for every value of \<open>f\<close> exactly when \<open>f\<close> is
  injective along the list.
\<close>

lemma at_most_one_iff_distinct:
  "(\<forall>k. length (filter (\<lambda>x. f x = k) xs) \<le> 1) \<longleftrightarrow> distinct (map f xs)"
proof (induction xs)
  case Nil
  then show ?case by simp
next
  case (Cons a xs)
  show ?case
  proof
    assume h: "\<forall>k. length (filter (\<lambda>x. f x = k) (a # xs)) \<le> 1"
    have "\<forall>k. length (filter (\<lambda>x. f x = k) xs) \<le> 1"
    proof
      fix k
      from h have "length (filter (\<lambda>x. f x = k) (a # xs)) \<le> 1" by blast
      then show "length (filter (\<lambda>x. f x = k) xs) \<le> 1" by (simp split: if_splits)
    qed
    with Cons.IH have d: "distinct (map f xs)" by blast
    from h have "length (filter (\<lambda>x. f x = f a) (a # xs)) \<le> 1" by blast
    then have "filter (\<lambda>x. f x = f a) xs = []" by simp
    then have "f a \<notin> f ` set xs" by (auto simp: filter_empty_conv)
    with d show "distinct (map f (a # xs))" by simp
  next
    assume d: "distinct (map f (a # xs))"
    then have "\<forall>k. length (filter (\<lambda>x. f x = k) xs) \<le> 1" using Cons.IH by simp
    moreover from d have "filter (\<lambda>x. f x = f a) xs = []"
      by (auto simp: filter_empty_conv image_iff)
    ultimately show "\<forall>k. length (filter (\<lambda>x. f x = k) (a # xs)) \<le> 1" by auto
  qed
qed

lemma dedup_iff_distinct:
  "(\<forall>sid d. length (filter (\<lambda>r. student_id r = sid \<and> date r = d) recs) \<le> 1)
     \<longleftrightarrow> distinct (map (\<lambda>r. (student_id r, date r)) recs)"
  using at_most_one_iff_distinct [of "\<lambda>r. (student_id r, date r)" recs] by simp

lemma exactly_one_of_distinct:
  assumes "distinct (map f xs)" and "k \<in> f ` set xs"
  shows "length (filter (\<lambda>x. f x = k) xs) = 1"
proof -
  from assms(1) have "length (filter (\<lambda>x. f x = k) xs) \<le> 1"
    using at_most_one_iff_distinct [of f xs] by blast
  moreover from assms(2) have "filter (\<lambda>x. f x = k) xs \<noteq> []"
    by (auto simp: filter_empty_conv)
  then have "1 \<le> length (filter (\<lambda>x. f x = k) xs)" by (simp add: Suc_le_eq)
  ultimately show ?thesis by simp
qed

text \<open>The scan and the append keep the pairs of student and date distinct.\<close>

lemma record_if_new_distinct:
  assumes "distinct (map (\<lambda>r. (student_id r, date r)) recs)"
  shows "distinct (map (\<lambda>r. (student_id r, date r)) (snd (record_if_new recs sid sd today now)))"
  using assms by (auto simp: record_if_new_def Let_def list_ex_iff)

lemma mark_faces_distinct:
  "distinct (map (\<lambda>r. (student_id r, date r)) recs) \<Longrightarrow>
   distinct (map (\<lambda>r. (student_id r, date r))
      (loop_records (mark_faces metric studs faces recs marked)))"
proof (induction faces arbitrary: recs marked)
  case Nil
  then show ?case by simp
next
  case (Cons face faces)
  obtain enc today now where face: "face = (enc, today, now)" by (cases face) auto
  show ?case
  proof (cases "map (\<lambda>(k, data). face_encoding data) studs = []")
    case True
    with Cons.prems face show ?thesis by simp
  next
    case ne: False
    show ?thesis
    proof (cases "match_face metric studs enc (6 / 10)")
      case (Inl e)
      with Cons.prems face ne show ?thesis by simp
    next
      case (Inr m)
      show ?thesis
      proof (cases m)
        case None
        with Inr face ne Cons.IH [OF Cons.prems] show ?thesis by simp
      next
        case (Some sid)
        show ?thesis
        proof (cases "map_of studs sid")
          case None
          with Some Inr face ne Cons.prems show ?thesis by simp
        next
          case sd: (Some student_data)
          obtain out recs' where r: "record_if_new recs sid student_data today now = (out, recs')"
            by (cases "record_if_new recs sid student_data today now") auto
          from record_if_new_distinct [OF Cons.prems, of sid student_data today now] r
          have d: "distinct (map (\<lambda>r. (student_id r, date r)) recs')" by simp
          from Cons.IH [OF d] Some Inr face ne sd r show ?thesis
            by (cases out) simp_all
        qed
      qed
    qed
  qed
qed

text \<open>What \<open>mark_attendance\<close> leaves in \<open>self.attendance_records\<close>, whatever the write does.\<close>

lemma mark_attendance_records:
  "attendance_records (snd (mark_attendance metric dm detected w)) =
     (case detected of
        Inl e \<Rightarrow> attendance_records dm
      | Inr faces \<Rightarrow> loop_records (mark_faces metric (students dm) faces (attendance_records dm) []))"
  by (cases w)
     (auto simp: mark_attendance_def save_attendance_def split: sum.splits loop_result.splits)

lemma mark_attendance_distinct:
  "distinct (map (\<lambda>r. (student_id r, date r)) (attendance_records dm)) \<Longrightarrow>
   distinct (map (\<lambda>r. (student_id r, date r))
      (attendance_records (snd (mark_attendance metric dm detected w))))"
  by (cases detected) (simp_all add: mark_attendance_records mark_faces_distinct)

lemma mark_attendance_seq_distinct:
  "distinct (map (\<lambda>r. (student_id r, date r)) (attendance_records dm)) \<Longrightarrow>
   distinct (map (\<lambda>r. (student_id r, date r))
      (attendance_records (mark_attendance_seq metric dm calls)))"
proof (induction calls arbitrary: dm)
  case Nil
  then show ?case by simp
next
  case (Cons c calls)
  obtain detected w where c: "c = (detected, w)" by (cases c) auto
  from Cons.IH [OF mark_attendance_distinct [OF Cons.prems, of metric detected w]] c
  show ?case by simp
qed

lemma record_if_new_twice:
  assumes "\<forall>sid d. length (filter (\<lambda>r. student_id r = sid \<and> date r = d) recs) \<le> 1"
  shows "(let first = record_if_new recs sid sd today now;
              second = record_if_new (snd first) sid sd today now'
          in fst first = (if list_ex (\<lambda>r. student_id r = sid \<and> date r = today) recs
                          then AlreadyPresentToday else Recorded)
             \<and> fst second = AlreadyPresentToday
             \<and> snd second = snd first
             \<and> length (filter (\<lambda>r. student_id r = sid \<and> date r = today) (snd second)) = 1)"
proof (cases "list_ex (\<lambda>r. student_id r = sid \<and> date r = today) recs")
  case True
  then have "filter (\<lambda>r. student_id r = sid \<and> date r = today) recs \<noteq> []"
    by (auto simp: list_ex_iff filter_empty_conv)
  then have "1 \<le> length (filter (\<lambda>r. student_id r = sid \<and> date r = today) recs)"
    by (simp add: Suc_le_eq)
  moreover from assms have "length (filter (\<lambda>r. student_id r = sid \<and> date r = today) recs) \<le> 1"
    by blast
  ultimately have "length (filter (\<lambda>r. student_id r = sid \<and> date r = today) recs) = 1"
    by simp
  with True show ?thesis by (simp add: record_if_new_def Let_def)
next
  case False
  then have "filter (\<lambda>r. student_id r = sid \<and> date r = today) recs = []"
    by (auto simp: list_ex_iff filter_empty_conv)
  with False show ?thesis by (simp add: record_if_new_def Let_def)
qed

text \<open>
  Claim C1. If the ledger holds at most one event for every student and date, it still does
  after any sequence of calls of \<open>mark_attendance\<close>, whatever faces are detected and
  whatever the writes do. Running the scan-and-append block twice for one student and one
  date: the first run records exactly when the ledger had no event for the pair, the
  second run finds the student already present and leaves the ledger as the first run
  left it, and the ledger then holds exactly one event for the pair.
\<close>

theorem attendance_dedup:
  assumes "\<forall>sid d. length (filter (\<lambda>r. student_id r = sid \<and> date r = d)
                                  (attendance_records dm)) \<le> 1"
  shows "(\<forall>sid d. length (filter (\<lambda>r. student_id r = sid \<and> date r = d)
                     (attendance_records (mark_attendance_seq metric dm calls))) \<le> 1)
       \<and> (let first = record_if_new (attendance_records dm) sid sd today now;
              second = record_if_new (snd first) sid sd today now'
          in fst first = (if list_ex (\<lambda>r. student_id r = sid \<and> date r = today)
                                (attendance_records dm)
                          then AlreadyPresentToday else Recorded)
             \<and> fst second = AlreadyPresentToday
             \<and> snd second = snd first
             \<and> length (filter (\<lambda>r. student_id r = sid \<and> date r = today) (snd second)) = 1)"
proof -
  from assms have "distinct (map (\<lambda>r. (student_id r, date r)) (attendance_records dm))"
    by (simp only: dedup_iff_distinct)
  then have "distinct (map (\<lambda>r. (student_id r, date r))
      (attendance_records (mark_attendance_seq metric dm calls)))"
    by (rule mark_attendance_seq_distinct)
  then have a: "\<forall>sid d. length (filter (\<lambda>r. student_id r = sid \<and> date r = d)
                     (attendance_records (mark_attendance_seq metric dm calls))) \<le> 1"
    by (simp only: dedup_iff_distinct)
  from a record_if_new_twice [OF assms] show ?thesis by blast
qed

lemmas mark_eval = mark_attendance_def record_if_new_def save_attendance_def match_face_def
  compare_faces_def face_distance_def argmin_def abs_metric_def enrolled_def Let_def
  fresh_manager_def

lemma first_capture_eval:
  "mark_attendance abs_metric (fresh_manager two_students) first_capture Written =
     ([''Alice''],
      \<lparr>students = two_students,
       attendance_records =
         [\<lparr>student_id = ''S1'', student_name = ''Alice'', student_class = ''Class 10A'',
           date = ''2025-10-08'', time = ''09:00:00'', status = ''Present''\<rparr>],
       students_file = Pickled two_students,
       attendance_file =
         Pickled [\<lparr>student_id = ''S1'', student_name = ''Alice'', student_class = ''Class 10A'',
           date = ''2025-10-08'', time = ''09:00:00'', status = ''Present''\<rparr>]\<rparr>)"
  by (simp add: first_capture_def two_students_def mark_eval)

lemma second_capture_eval:
  "mark_attendance abs_metric
     (snd (mark_attendance abs_metric (fresh_manager two_students) first_capture Written))
     second_capture Written =
     ([], snd (mark_attendance abs_metric (fresh_manager two_students) first_capture Written))"
  unfolding first_capture_eval
  by (simp add: second_capture_def two_students_def mark_eval)

text \<open>
  From the empty ledger with Alice and Bob enrolled: the first capture of Alice returns her
  name, the second capture on the same day returns nothing, and the ledger holds one event.
\<close>

theorem attendance_dedup_witness:
  "(\<forall>sid d. length (filter (\<lambda>r. student_id r = sid \<and> date r = d)
               (attendance_records (fresh_manager two_students))) \<le> 1)
   \<and> fst (mark_attendance abs_metric (fresh_manager two_students) first_capture Written)
       = [''Alice'']
   \<and> fst (mark_attendance abs_metric
            (snd (mark_attendance abs_metric (fresh_manager two_students) first_capture Written))
            second_capture Written) = []
   \<and> length (attendance_records (mark_attendance_seq abs_metric (fresh_manager two_students)
               [(first_capture, Written), (second_capture, Written)])) = 1
   \<and> (\<forall>sid d. length (filter (\<lambda>r. student_id r = sid \<and> date r = d)
               (attendance_records (mark_attendance_seq abs_metric (fresh_manager two_students)
                  [(first_capture, Written), (second_capture, Written)]))) \<le> 1)
   \<and> (let first = record_if_new (attendance_records (fresh_manager two_students))
                     ''S1'' (snd (two_students ! 0)) ''2025-10-08'' ''09:00:00'';
           second = record_if_new (snd first) ''S1'' (snd (two_students ! 0))
                      ''2025-10-08'' ''09:05:00''
       in fst first = Recorded \<and> fst second = AlreadyPresentToday \<and> snd second = snd first
          \<and> length (filter (\<lambda>r. student_id r = ''S1'' \<and> date r = ''2025-10-08'')
                       (snd second)) = 1)"
proof -
  have h: "\<forall>sid d. length (filter (\<lambda>r. student_id r = sid \<and> date r = d)
               (attendance_records (fresh_manager two_students))) \<le> 1"
    by (simp add: fresh_manager_def)
  have a: "fst (mark_attendance abs_metric (fresh_manager two_students) first_capture Written)
       = [''Alice'']"
    by (simp add: first_capture_eval)
  have b: "fst (mark_attendance abs_metric
            (snd (mark_attendance abs_metric (fresh_manager two_students) first_capture Written))
            second_capture Written) = []"
    by (simp add: second_capture_eval)
  have c: "length (attendance_records (mark_attendance_seq abs_metric (fresh_manager two_students)
               [(first_capture, Written), (second_capture, Written)])) = 1"
    by (simp add: second_capture_eval) (simp add: first_capture_eval)
  have n: "\<not> list_ex (\<lambda>r. student_id r = ''S1'' \<and> date r = ''2025-10-08'')
               (attendance_records (fresh_manager two_students))"
    by (simp add: fresh_manager_def)
  note t = attendance_dedup [OF h, of abs_metric
      "[(first_capture, Written), (second_capture, Written)]"
      "''S1''" "snd (two_students ! 0)" "''2025-10-08''" "''09:00:00''" "''09:05:00''"]
  from t have t': "(\<forall>sid d. length (filter (\<lambda>r. student_id r = sid \<and> date r = d)
               (attendance_records (mark_attendance_seq abs_metric (fresh_manager two_students)
                  [(first_capture, Written), (second_capture, Written)]))) \<le> 1)
   \<and> (let first = record_if_new (attendance_records (fresh_manager two_students))
                     ''S1'' (snd (two_students ! 0)) ''2025-10-08'' ''09:00:00'';
           second = record_if_new (snd first) ''S1'' (snd (two_students ! 0))
                      ''2025-10-08'' ''09:05:00''
       in fst first = Recorded \<and> fst second = AlreadyPresentToday \<and> snd second = snd first
          \<and> length (filter (\<lambda>r. student_id r = ''S1'' \<and> date r = ''2025-10-08'')
                       (snd second)) = 1)"
    by (simp only: n if_False simp_thms)
  from h a b c t' show ?thesis by blast
qed

section \<open>The names returned by a capture\<close>

text \<open>
  The loop only appends to the records, and when it runs to its end the names it marked
  are the names of the events it appended, in order.
\<close>

lemma mark_faces_extends:
  "\<exists>new. loop_records (mark_faces metric studs faces recs marked) = recs @ new
     \<and> (\<forall>recs' marked'. mark_faces metric studs faces recs marked = Finished recs' marked'
            \<longrightarrow> marked' = marked @ map student_name new)"
proof (induction faces arbitrary: recs marked)
  case Nil
  then show ?case by simp
next
  case (Cons face faces)
  obtain enc today now where face: "face = (enc, today, now)" by (cases face) auto
  show ?case
  proof (cases "map (\<lambda>(k, data). face_encoding data) studs = []")
    case True
    with face show ?thesis by simp
  next
    case ne: False
    show ?thesis
    proof (cases "match_face metric studs enc (6 / 10)")
      case (Inl e)
      with face ne show ?thesis by simp
    next
      case (Inr m)
      show ?thesis
      proof (cases m)
        case None
        with Inr face ne Cons.IH [of recs marked] show ?thesis by simp
      next
        case (Some sid)
        show ?thesis
        proof (cases "map_of studs sid")
          case None
          with Some Inr face ne show ?thesis by simp
        next
          case sd: (Some student_data)
          show ?thesis
          proof (cases "list_ex (\<lambda>r. student_id r = sid \<and> date r = today) recs")
            case True
            then have "mark_faces metric studs (face # faces) recs marked
                         = mark_faces metric studs faces recs marked"
              using Some Inr face ne sd by (simp add: record_if_new_def)
            with Cons.IH [of recs marked] show ?thesis by simp
          next
            case False
            let ?ev = "\<lparr>student_id = sid, student_name = name student_data,
                        student_class = class_name student_data, date = today,
                        time = now, status = ''Present''\<rparr>"
            from False have eq: "mark_faces metric studs (face # faces) recs marked
                = mark_faces metric studs faces (recs @ [?ev]) (marked @ [name student_data])"
              using Some Inr face ne sd by (simp add: record_if_new_def)
            from Cons.IH [of "recs @ [?ev]" "marked @ [name student_data]"]
            obtain new where new:
              "loop_records (mark_faces metric studs faces (recs @ [?ev]) (marked @ [name student_data]))
                 = (recs @ [?ev]) @ new"
              "\<forall>recs' marked'.
                 mark_faces metric studs faces (recs @ [?ev]) (marked @ [name student_data])
                   = Finished recs' marked'
                 \<longrightarrow> marked' = (marked @ [name student_data]) @ map student_name new"
              by blast
            have "loop_records (mark_faces metric studs (face # faces) recs marked)
                    = recs @ (?ev # new)"
              using eq new(1) by simp
            moreover have "\<forall>recs' marked'.
                 mark_faces metric studs (face # faces) recs marked = Finished recs' marked'
                 \<longrightarrow> marked' = marked @ map student_name (?ev # new)"
              using eq new(2) by simp
            ultimately show ?thesis by blast
          qed
        qed
      qed
    qed
  qed
qed

text \<open>
  Claim C9. The list that \<open>mark_attendance\<close> returns holds every name at most once. The
  call appends events to the ledger, the returned names are names of appended events, and
  a non-empty result holds exactly the names of the appended events: two new events with
  one display name give that name once.
\<close>

theorem mark_attendance_names_once:
  "\<exists>new. attendance_records (snd (mark_attendance metric dm detected w))
            = attendance_records dm @ new
        \<and> distinct (fst (mark_attendance metric dm detected w))
        \<and> set (fst (mark_attendance metric dm detected w)) \<subseteq> set (map student_name new)
        \<and> (fst (mark_attendance metric dm detected w) \<noteq> [] \<longrightarrow>
             set (fst (mark_attendance metric dm detected w)) = set (map student_name new))"
proof (cases detected)
  case (Inl e)
  then show ?thesis by (simp add: mark_attendance_def)
next
  case (Inr faces)
  from mark_faces_extends [of metric "students dm" faces "attendance_records dm" "[]"]
  obtain new where new:
    "loop_records (mark_faces metric (students dm) faces (attendance_records dm) [])
       = attendance_records dm @ new"
    "\<forall>recs' marked'. mark_faces metric (students dm) faces (attendance_records dm) []
        = Finished recs' marked' \<longrightarrow> marked' = map student_name new"
    by auto
  have r: "attendance_records (snd (mark_attendance metric dm detected w))
            = attendance_records dm @ new"
    using Inr new(1) by (simp add: mark_attendance_records)
  have d: "distinct (fst (mark_attendance metric dm detected w))"
    using Inr by (cases w)
      (auto simp: mark_attendance_def save_attendance_def split: loop_result.splits)
  have s: "fst (mark_attendance metric dm detected w) = []
           \<or> set (fst (mark_attendance metric dm detected w)) = set (map student_name new)"
    using Inr new(2) by (cases w)
      (auto simp: mark_attendance_def save_attendance_def split: loop_result.splits)
  from r d s show ?thesis by auto
qed

text \<open>
  Two enrolled students named Alex, both captured in one image: two events are appended
  and the result is the one name.
\<close>

theorem mark_attendance_names_once_witness:
  "fst (mark_attendance abs_metric (fresh_manager namesakes) namesake_capture Written) = [''Alex'']
   \<and> attendance_records (snd (mark_attendance abs_metric (fresh_manager namesakes)
         namesake_capture Written))
      = [\<lparr>student_id = ''S1'', student_name = ''Alex'', student_class = ''Class 9A'',
           date = ''2025-10-08'', time = ''09:00:00'', status = ''Present''\<rparr>,
         \<lparr>student_id = ''S2'', student_name = ''Alex'', student_class = ''Class 9B'',
           date = ''2025-10-08'', time = ''09:00:01'', status = ''Present''\<rparr>]
   \<and> (\<exists>new. attendance_records (snd (mark_attendance abs_metric (fresh_manager namesakes)
                 namesake_capture Written))
            = attendance_records (fresh_manager namesakes) @ new
        \<and> length new = 2
        \<and> distinct (fst (mark_attendance abs_metric (fresh_manager namesakes)
                 namesake_capture Written))
        \<and> set (fst (mark_attendance abs_metric (fresh_manager namesakes)
                 namesake_capture Written)) = set (map student_name new))"
proof -
  have e: "mark_attendance abs_metric (fresh_manager namesakes) namesake_capture Written =
     ([''Alex''],
      \<lparr>students = namesakes,
       attendance_records =
         [\<lparr>student_id = ''S1'', student_name = ''Alex'', student_class = ''Class 9A'',
           date = ''2025-10-08'', time = ''09:00:00'', status = ''Present''\<rparr>,
          \<lparr>student_id = ''S2'', student_name = ''Alex'', student_class = ''Class 9B'',
           date = ''2025-10-08'', time = ''09:00:01'', status = ''Present''\<rparr>],
       students_file = Pickled namesakes,
       attendance_file =
         Pickled [\<lparr>student_id = ''S1'', student_name = ''Alex'', student_class = ''Class 9A'',
           date = ''2025-10-08'', time = ''09:00:00'', status = ''Present''\<rparr>,
          \<lparr>student_id = ''S2'', student_name = ''Alex'', student_class = ''Class 9B'',
           date = ''2025-10-08'', time = ''09:00:01'', status = ''Present''\<rparr>]\<rparr>)"
    by (simp add: namesake_capture_def namesakes_def mark_eval)
  from mark_attendance_names_once [of abs_metric "fresh_manager namesakes" namesake_capture Written]
  show ?thesis unfolding e by (auto simp: fresh_manager_def)
qed

section \<open>A failed write\<close>

text \<open>
  Claim C6, as the code has it. When the write of the students file fails,
  \<open>register_student\<close> raises to its caller, and the registration page reports a failed
  registration; when the write of the attendance file fails, \<open>mark_attendance\<close> returns
  the empty list. In both cases the collection in memory keeps the change made before the
  write, and the file is what the failed write left.
\<close>

theorem write_failure_keeps_change:
  "register_student dm sid nm cls mail (Some fe) None now (WriteRaises f) =
     (Inl OSError,
      dm\<lparr>students :=
           AList.update sid
             \<lparr>name = nm, class_name = cls, email = mail,
              image_path = path_join images_dir (sid @ ''.jpg''),
              face_encoding = fe, registration_date = now\<rparr>
             (students dm),
         students_file := f\<rparr>)
   \<and> (sid \<noteq> [] \<and> nm \<noteq> [] \<and> cls \<noteq> ''Select Class'' \<and> sid \<notin> set (map fst (students dm)) \<longrightarrow>
        fst (student_registration_submit dm sid nm cls mail
               (Some \<lparr>opens = True, encoding = Some fe, save_error = None\<rparr>) now (WriteRaises f))
          = RegistrationFailed)
   \<and> (mark_faces metric (students dm) faces (attendance_records dm) [] = Finished recs marked
        \<and> marked \<noteq> [] \<longrightarrow>
        mark_attendance metric dm (Inr faces) (WriteRaises g) =
          ([], dm\<lparr>attendance_records := recs, attendance_file := g\<rparr>))"
  by (simp add: register_student_def save_students_def student_registration_submit_def
        mark_attendance_def save_attendance_def Let_def)

text \<open>
  Registering Alice in an empty store, and capturing Alice with an empty ledger, each with a
  write that fails.
\<close>

theorem write_failure_keeps_change_witness:
  "fst (register_student (fresh_manager []) ''S1'' ''Alice'' ''Class 10A'' [] (Some (2 / 10)) None
          ''2025-10-08 09:00:00'' (WriteRaises (Pickled []))) = Inl OSError
   \<and> students (snd (register_student (fresh_manager []) ''S1'' ''Alice'' ''Class 10A'' []
          (Some (2 / 10)) None ''2025-10-08 09:00:00'' (WriteRaises (Pickled []))))
       = [enrolled ''S1'' ''Alice'' ''Class 10A'' (2 / 10)]
   \<and> fst (student_registration_submit (fresh_manager []) ''S1'' ''Alice'' ''Class 10A'' []
          (Some \<lparr>opens = True, encoding = Some (2 / 10), save_error = None\<rparr>)
          ''2025-10-08 09:00:00'' (WriteRaises (Pickled []))) = RegistrationFailed
   \<and> mark_attendance abs_metric (fresh_manager two_students)
         (Inr [(0, ''2025-10-08'', ''09:00:00'')]) (WriteRaises Missing)
       = ([], (fresh_manager two_students)
               \<lparr>attendance_records :=
                  [\<lparr>student_id = ''S1'', student_name = ''Alice'', student_class = ''Class 10A'',
                    date = ''2025-10-08'', time = ''09:00:00'', status = ''Present''\<rparr>],
                attendance_file := Missing\<rparr>)"
proof -
  have l: "mark_faces abs_metric (students (fresh_manager two_students))
             [(0, ''2025-10-08'', ''09:00:00'')]
             (attendance_records (fresh_manager two_students)) []
           = Finished
               [\<lparr>student_id = ''S1'', student_name = ''Alice'', student_class = ''Class 10A'',
                 date = ''2025-10-08'', time = ''09:00:00'', status = ''Present''\<rparr>]
               [''Alice'']"
    by (simp add: two_students_def mark_eval)
  have s: "''S1'' \<noteq> [] \<and> ''Alice'' \<noteq> [] \<and> ''Class 10A'' \<noteq> ''Select Class''
           \<and> ''S1'' \<notin> set (map fst (students (fresh_manager ([] :: real students_dict))))"
    by (simp add: fresh_manager_def)
  from write_failure_keeps_change
    [of "fresh_manager []" "''S1''" "''Alice''" "''Class 10A''" "[]" "2 / 10"
        "''2025-10-08 09:00:00''" "Pickled []"]
  have r: "register_student (fresh_manager []) ''S1'' ''Alice'' ''Class 10A'' [] (Some (2 / 10)) None
          ''2025-10-08 09:00:00'' (WriteRaises (Pickled []))
        = (Inl OSError,
           (fresh_manager [])\<lparr>students := [enrolled ''S1'' ''Alice'' ''Class 10A'' (2 / 10)],
                               students_file := Pickled []\<rparr>)"
    by (simp add: fresh_manager_def enrolled_def)
  from write_failure_keeps_change
    [of "fresh_manager []" "''S1''" "''Alice''" "''Class 10A''" "[]" "2 / 10"
        "''2025-10-08 09:00:00''" "Pickled []"] s
  have p: "fst (student_registration_submit (fresh_manager []) ''S1'' ''Alice'' ''Class 10A'' []
          (Some \<lparr>opens = True, encoding = Some (2 / 10), save_error = None\<rparr>)
          ''2025-10-08 09:00:00'' (WriteRaises (Pickled []))) = RegistrationFailed"
    by blast
  from write_failure_keeps_change
    [of "fresh_manager two_students" _ _ _ _ _ _ _ abs_metric
        "[(0, ''2025-10-08'', ''09:00:00'')]" _ "[''Alice'']" Missing] l
  have m: "mark_attendance abs_metric (fresh_manager two_students)
         (Inr [(0, ''2025-10-08'', ''09:00:00'')]) (WriteRaises Missing)
       = ([], (fresh_manager two_students)
               \<lparr>attendance_records :=
                  [\<lparr>student_id = ''S1'', student_name = ''Alice'', student_class = ''Class 10A'',
                    date = ''2025-10-08'', time = ''09:00:00'', status = ''Present''\<rparr>],
                attendance_file := Missing\<rparr>)"
    by simp
  from r p m show ?thesis by simp
qed

text \<open>
  Claim C6 as stated asks for a rollback. After the failed write, the students in memory
  are not the students before the call and not what the file loads to; the same holds for
  the attendance records, and \<open>mark_attendance\<close> returns the empty list as it does when
  nobody was recognised.
\<close>

theorem write_failure_rollback_counterexample:
  "fst (register_student (fresh_manager []) ''S1'' ''Alice'' ''Class 10A'' [] (Some (2 / 10)) None
          ''2025-10-08 09:00:00'' (WriteRaises (Pickled []))) = Inl OSError
   \<and> students (snd (register_student (fresh_manager []) ''S1'' ''Alice'' ''Class 10A'' []
          (Some (2 / 10)) None ''2025-10-08 09:00:00'' (WriteRaises (Pickled []))))
       \<noteq> students (fresh_manager [])
   \<and> load_students (students_file (snd (register_student (fresh_manager []) ''S1'' ''Alice''
          ''Class 10A'' [] (Some (2 / 10)) None ''2025-10-08 09:00:00'' (WriteRaises (Pickled [])))))
       \<noteq> Inr (students (snd (register_student (fresh_manager []) ''S1'' ''Alice''
          ''Class 10A'' [] (Some (2 / 10)) None ''2025-10-08 09:00:00'' (WriteRaises (Pickled [])))))
   \<and> fst (mark_attendance abs_metric (fresh_manager two_students)
         (Inr [(0, ''2025-10-08'', ''09:00:00'')]) (WriteRaises Missing)) = []
   \<and> attendance_records (snd (mark_attendance abs_metric (fresh_manager two_students)
         (Inr [(0, ''2025-10-08'', ''09:00:00'')]) (WriteRaises Missing)))
       \<noteq> attendance_records (fresh_manager two_students)
   \<and> load_attendance (attendance_file (snd (mark_attendance abs_metric (fresh_manager two_students)
         (Inr [(0, ''2025-10-08'', ''09:00:00'')]) (WriteRaises Missing))))
       \<noteq> Inr (attendance_records (snd (mark_attendance abs_metric (fresh_manager two_students)
         (Inr [(0, ''2025-10-08'', ''09:00:00'')]) (WriteRaises Missing))))"
proof -
  have r: "register_student (fresh_manager []) ''S1'' ''Alice'' ''Class 10A'' [] (Some (2 / 10)) None
          ''2025-10-08 09:00:00'' (WriteRaises (Pickled []))
        = (Inl OSError,
           (fresh_manager [])\<lparr>students := [enrolled ''S1'' ''Alice'' ''Class 10A'' (2 / 10)],
                               students_file := Pickled []\<rparr>)"
    by (simp add: register_student_def save_students_def fresh_manager_def enrolled_def)
  have m: "mark_attendance abs_metric (fresh_manager two_students)
         (Inr [(0, ''2025-10-08'', ''09:00:00'')]) (WriteRaises Missing)
       = ([], (fresh_manager two_students)
               \<lparr>attendance_records :=
                  [\<lparr>student_id = ''S1'', student_name = ''Alice'', student_class = ''Class 10A'',
                    date = ''2025-10-08'', time = ''09:00:00'', status = ''Present''\<rparr>],
                attendance_file := Missing\<rparr>)"
    by (simp add: two_students_def mark_eval)
  show ?thesis unfolding r m
    by (simp add: fresh_manager_def load_students_def load_attendance_def enrolled_def)
qed

section \<open>Enrollment with an existing key\<close>

text \<open>
  The keys of \<open>self.students\<close> stay distinct, and an id that is a key exactly as typed is
  refused with the store unchanged.
\<close>

lemma register_student_keys_distinct:
  "distinct (map fst (students dm)) \<Longrightarrow>
   distinct (map fst (students (snd (register_student dm sid nm cls mail enc save_raises now w))))"
  by (cases w; cases enc; cases save_raises)
     (simp_all add: register_student_def save_students_def Let_def distinct_update)

lemma register_student_keys_distinct':
  "register_student dm sid nm cls mail enc save_raises now w = (r, dm') \<Longrightarrow>
   distinct (map fst (students dm)) \<Longrightarrow> distinct (map fst (students dm'))"
  using register_student_keys_distinct [of dm sid nm cls mail enc save_raises now w] by simp

lemma submit_keys_distinct:
  "distinct (map fst (students dm)) \<Longrightarrow>
   distinct (map fst (students (snd
      (student_registration_submit dm sid nm cls mail image_buffer now w))))"
  by (auto simp: student_registration_submit_def
           split: option.splits prod.splits sum.splits
           dest: register_student_keys_distinct')

lemma submit_same_id_refused:
  "sid \<in> set (map fst (students dm)) \<Longrightarrow> nm \<noteq> [] \<Longrightarrow> cls \<noteq> ''Select Class'' \<Longrightarrow>
   sid \<noteq> [] \<Longrightarrow>
   student_registration_submit dm sid nm cls mail image_buffer now w = (StudentIdExists, dm)"
  by (auto simp: student_registration_submit_def)

text \<open>
  Claim C3 at the input that breaks it. With \<open>S1\<close> enrolled as Alice, the form is
  submitted with the id typed with a leading space. The membership test sees the id as
  typed and passes; \<open>register_student\<close> receives the stripped id \<open>S1\<close>, the page reports
  success, and the record of Alice is replaced by the new one.
\<close>

theorem padded_duplicate_id_overwrites:
  "student_registration_submit (fresh_manager two_students) '' S1'' ''Eve'' ''Class 9A'' []
     (Some \<lparr>opens = True, encoding = Some 9, save_error = None\<rparr>) ''2025-10-09 10:00:00'' Written
   = (RegisteredSuccessfully,
      \<lparr>students =
         [(''S1'', \<lparr>name = ''Eve'', class_name = ''Class 9A'', email = [],
                   image_path = ''attendance_data/student_images/S1.jpg'',
                   face_encoding = 9, registration_date = ''2025-10-09 10:00:00''\<rparr>),
          enrolled ''S2'' ''Bob'' ''Class 10A'' (8 / 10)],
       attendance_records = [],
       students_file =
         Pickled
           [(''S1'', \<lparr>name = ''Eve'', class_name = ''Class 9A'', email = [],
                     image_path = ''attendance_data/student_images/S1.jpg'',
                     face_encoding = 9, registration_date = ''2025-10-09 10:00:00''\<rparr>),
            enrolled ''S2'' ''Bob'' ''Class 10A'' (8 / 10)],
       attendance_file = Missing\<rparr>)
   \<and> map_of (students (fresh_manager two_students)) ''S1''
       = Some (snd (enrolled ''S1'' ''Alice'' ''Class 10A'' (2 / 10)))"
  by (simp add: student_registration_submit_def register_student_def save_students_def
        strip_def is_space_def fresh_manager_def two_students_def enrolled_def Let_def
        path_join_def images_dir_def data_dir_def)

section \<open>Statistics\<close>




section \<open>Reports\<close>

lemma report_data_all_classes_eq:
  "report_data dm d ''All Classes'' =
     map (\<lambda>(sid, student_data).
            \<lparr>row_student_id = sid, row_name = name student_data,
             row_class = class_name student_data,
             row_status = (if \<exists>r \<in> set (attendance_records dm). student_id r = sid \<and> date r = d
                           then ''Present'' else ''Absent'')\<rparr>)
         (students dm)"
proof -
  have "\<And>sid. (sid \<in> set (map student_id (filter (\<lambda>r. date r = d) (attendance_records dm))))
          = (\<exists>r \<in> set (attendance_records dm). student_id r = sid \<and> date r = d)"
    by auto
  then show ?thesis by (simp add: report_data_def Let_def)
qed

lemma report_ids: "map row_student_id (report_data dm d ''All Classes'') = map fst (students dm)"
  by (simp add: report_data_all_classes_eq case_prod_unfold)

text \<open>
  Claim C5. For every date, the report over all classes has one row per enrolled student:
  as many rows as students, the ids of the rows are the keys of the dict in order, every
  key is the id of exactly one row, and the status of a row is \<open>Present\<close> when the ledger
  holds an event for its id on the date and \<open>Absent\<close> otherwise. The report type
  "All Students Status" shows these rows as they are.
\<close>

theorem report_all_classes_complete:
  assumes "distinct (map fst (students dm))"
  shows "length (report_data dm d ''All Classes'') = length (students dm)
       \<and> map row_student_id (report_data dm d ''All Classes'') = map fst (students dm)
       \<and> (\<forall>k \<in> set (map fst (students dm)).
            length (filter (\<lambda>row. row_student_id row = k) (report_data dm d ''All Classes'')) = 1)
       \<and> (\<forall>row \<in> set (report_data dm d ''All Classes'').
            row_status row =
              (if \<exists>r \<in> set (attendance_records dm).
                    student_id r = row_student_id row \<and> date r = d
               then ''Present'' else ''Absent''))
       \<and> report_rows dm d ''All Classes'' ''All Students Status''
           = report_data dm d ''All Classes''"
proof -
  have a: "length (report_data dm d ''All Classes'') = length (students dm)"
    by (simp add: report_data_all_classes_eq)
  have b: "map row_student_id (report_data dm d ''All Classes'') = map fst (students dm)"
    by (rule report_ids)
  have c: "\<forall>k \<in> set (map fst (students dm)).
            length (filter (\<lambda>row. row_student_id row = k) (report_data dm d ''All Classes'')) = 1"
  proof
    fix k assume k: "k \<in> set (map fst (students dm))"
    from assms b have "distinct (map row_student_id (report_data dm d ''All Classes''))" by simp
    moreover from k b have "k \<in> row_student_id ` set (report_data dm d ''All Classes'')"
      by (metis set_map)
    ultimately show "length (filter (\<lambda>row. row_student_id row = k)
                        (report_data dm d ''All Classes'')) = 1"
      by (rule exactly_one_of_distinct)
  qed
  have e: "\<forall>row \<in> set (report_data dm d ''All Classes'').
            row_status row =
              (if \<exists>r \<in> set (attendance_records dm).
                    student_id r = row_student_id row \<and> date r = d
               then ''Present'' else ''Absent'')"
    by (auto simp: report_data_all_classes_eq)
  have f: "report_rows dm d ''All Classes'' ''All Students Status''
           = report_data dm d ''All Classes''"
    by (simp add: report_rows_def)
  from a b c e f show ?thesis by blast
qed

text \<open>Alice present and Bob absent on 2025-10-08.\<close>

theorem report_all_classes_complete_witness:
  "distinct (map fst (students alice_present))
   \<and> report_data alice_present ''2025-10-08'' ''All Classes''
       = [\<lparr>row_student_id = ''S1'', row_name = ''Alice'', row_class = ''Class 10A'',
           row_status = ''Present''\<rparr>,
          \<lparr>row_student_id = ''S2'', row_name = ''Bob'', row_class = ''Class 10A'',
           row_status = ''Absent''\<rparr>]
   \<and> length (report_data alice_present ''2025-10-08'' ''All Classes'')
       = length (students alice_present)
   \<and> length (filter (\<lambda>row. row_student_id row = ''S2'')
               (report_data alice_present ''2025-10-08'' ''All Classes'')) = 1"
proof -
  have h: "distinct (map fst (students alice_present))"
    by (simp add: alice_present_def two_students_def enrolled_def)
  have v: "report_data alice_present ''2025-10-08'' ''All Classes''
       = [\<lparr>row_student_id = ''S1'', row_name = ''Alice'', row_class = ''Class 10A'',
           row_status = ''Present''\<rparr>,
          \<lparr>row_student_id = ''S2'', row_name = ''Bob'', row_class = ''Class 10A'',
           row_status = ''Absent''\<rparr>]"
    by (simp add: report_data_def alice_present_def two_students_def enrolled_def Let_def)
  have k: "''S2'' \<in> set (map fst (students alice_present))"
    by (simp add: alice_present_def two_students_def enrolled_def)
  from report_all_classes_complete [OF h, of "''2025-10-08''"] k
  have "length (report_data alice_present ''2025-10-08'' ''All Classes'')
       = length (students alice_present)
     \<and> length (filter (\<lambda>row. row_student_id row = ''S2'')
               (report_data alice_present ''2025-10-08'' ''All Classes'')) = 1"
    by blast
  with h v show ?thesis by blast
qed

end
